theory Spec2Isabelle
  imports Main
begin

section \<open>The rice shop: a shallow embedding of app.py\<close>

text \<open>
  app.py is a Flask application: seven route handlers over two tables (farmer and
  rice_product), the Flask-Login session and the flash queue. Each handler is embedded
  as a function from its inputs (the submitted form or the id of the URL) and the
  application state to the response and the new state.

  The collaborators that app.py imports and does not define are kept apart from the
  handlers:
  \<^item> pure library functions whose results the handlers only pass on (werkzeug's
    password hashing and \<open>secure_filename\<close>, Python's \<open>str.strip\<close>, the conversions
    that the Float and Integer columns of the store apply to a flushed row) are fields of a
    record \<open>library\<close>, a parameter of every handler that calls them;
  \<^item> the framework operations the handlers call (\<open>query.get\<close>, \<open>filter_by(...).first()\<close>,
    \<open>db.session.add\<close> with \<open>commit\<close>, \<open>login_user\<close>, \<open>login_required\<close>, \<open>flash\<close>,
    \<open>validate_on_submit\<close>) are small definitions next to the code that calls them.
\<close>

subsection \<open>Database models (app.py, lines 25-40 and 63-73)\<close>

text \<open>
  Two models share column names (\<open>id\<close>, \<open>username\<close>, \<open>password\<close>), so the fields carry
  the model's initial: \<open>f_\<close> for Farmer, \<open>p_\<close> for RiceProduct, \<open>u_\<close> for User.
  A nullable column is an \<open>option\<close>. The values of the Float column \<open>price\<close> and of
  the Integer column \<open>quantity\<close> are of the types \<open>'f\<close> and \<open>'q\<close>, which the column
  conversions of the library produce.
\<close>

record Farmer =
  f_id :: int
  f_username :: string
  f_password :: string
  f_role :: string
  f_qr_code :: "string option"

record ('f, 'q) RiceProduct =
  p_id :: int
  p_name :: string
  p_description :: "string option"
  p_price :: 'f
  p_quantity :: 'q
  p_image :: "string option"
  p_farmer_id :: int

record User =
  u_id :: int
  u_username :: string
  u_email :: string
  u_password :: string

subsection \<open>Imported library functions\<close>

text \<open>
  \<open>generate_password_hash\<close> draws a random salt; here the salt is its first argument.
  \<open>float_column\<close> is what the flush of a row does with the text given for the Float
  column \<open>price\<close>, which is NOT NULL: the number that the store keeps, or \<open>None\<close> when
  the flush raises. It raises for a text that is not a number (the column converts
  with Python's \<open>float\<close>) and for the text of a NaN (the store keeps a NaN as NULL,
  which the constraint refuses). \<open>integer_column\<close> is what the store keeps for the text
  given for the Integer column \<open>quantity\<close>: the column converts nothing and the store's
  type affinity keeps every text (as the integer it spells, else as it is), so no text
  makes the flush raise.
\<close>

record ('f, 'q) library =
  generate_password_hash :: "string \<Rightarrow> string \<Rightarrow> string"
  check_password_hash :: "string \<Rightarrow> string \<Rightarrow> bool"
  secure_filename :: "string \<Rightarrow> string"
  str_strip :: "string \<Rightarrow> string"
  float_column :: "string \<Rightarrow> 'f option"
  integer_column :: "string \<Rightarrow> 'q"

subsection \<open>The User model's methods (app.py, lines 69-73)\<close>

definition set_password :: "('f, 'q) library \<Rightarrow> string \<Rightarrow> User \<Rightarrow> string \<Rightarrow> User" where
  "set_password lib salt self password =
     self\<lparr>u_password := generate_password_hash lib salt password\<rparr>"

definition check_password :: "('f, 'q) library \<Rightarrow> User \<Rightarrow> string \<Rightarrow> bool" where
  "check_password lib self password = check_password_hash lib (u_password self) password"

subsection \<open>Forms (app.py, lines 43-61)\<close>

text \<open>
  A form object is built from the request: \<open>request_method\<close> is the request's method
  (the routes with a form accept GET and POST; HEAD comes with GET) and
  \<open>csrf_token_valid\<close> says whether the CSRF token that every FlaskForm carries checks.
  The other fields are \<open>form.<field>.data\<close>. A text field that the request lacks is
  written \<open>''''\<close>, like one sent empty: \<open>DataRequired\<close> refuses both.
\<close>

datatype http_method = GET | HEAD | POST

record FlaskForm =
  request_method :: http_method
  csrf_token_valid :: bool

record LoginForm = FlaskForm +
  lf_username :: string
  lf_password :: string

record RegisterForm = FlaskForm +
  rf_username :: string
  rf_password :: string
  rf_confirm_password :: string
  rf_role :: string

record FileStorage =
  fs_filename :: string
  fs_content :: string

record SellRiceForm = FlaskForm +
  sf_name :: string
  sf_description :: "string option"
  sf_price :: string
  sf_quantity :: string
  sf_image :: "FileStorage option"

definition is_submitted :: "'a FlaskForm_scheme \<Rightarrow> bool" where
  "is_submitted form = (request_method form = POST)"

text \<open>\<open>DataRequired\<close>: the data is truthy and, stripped, still not empty.\<close>

definition DataRequired :: "('f, 'q) library \<Rightarrow> string \<Rightarrow> bool" where
  "DataRequired lib data = (data \<noteq> [] \<and> str_strip lib data \<noteq> [])"

definition EqualTo :: "string \<Rightarrow> string \<Rightarrow> bool" where
  "EqualTo other data = (data = other)"

definition role_choices :: "string list" where
  "role_choices = [''farmer'', ''buyer'']"

definition LoginForm_validate_on_submit :: "('f, 'q) library \<Rightarrow> LoginForm \<Rightarrow> bool" where
  "LoginForm_validate_on_submit lib form =
     (is_submitted form \<and> csrf_token_valid form
      \<and> DataRequired lib (lf_username form)
      \<and> DataRequired lib (lf_password form))"

definition RegisterForm_validate_on_submit :: "('f, 'q) library \<Rightarrow> RegisterForm \<Rightarrow> bool" where
  "RegisterForm_validate_on_submit lib form =
     (is_submitted form \<and> csrf_token_valid form
      \<and> DataRequired lib (rf_username form)
      \<and> DataRequired lib (rf_password form)
      \<and> DataRequired lib (rf_confirm_password form)
      \<and> EqualTo (rf_password form) (rf_confirm_password form)
      \<and> rf_role form \<in> set role_choices
      \<and> DataRequired lib (rf_role form))"

definition SellRiceForm_validate_on_submit :: "('f, 'q) library \<Rightarrow> SellRiceForm \<Rightarrow> bool" where
  "SellRiceForm_validate_on_submit lib form =
     (is_submitted form \<and> csrf_token_valid form
      \<and> DataRequired lib (sf_name form)
      \<and> DataRequired lib (sf_price form)
      \<and> DataRequired lib (sf_quantity form))"

subsection \<open>Application state\<close>

text \<open>
  The two tables in rowid order, the account id that Flask-Login keeps in the session,
  the flashed messages (category and text, oldest first) and the files of the
  upload folder by path.
\<close>

record ('f, 'q) app_state =
  farmer_table :: "Farmer list"
  rice_product_table :: "('f, 'q) RiceProduct list"
  session_user_id :: "int option"
  flashes :: "(string \<times> string) list"
  upload_files :: "string \<rightharpoonup> string"

subsection \<open>Responses\<close>

datatype ('f, 'q) template_context =
    ctx_products "('f, 'q) RiceProduct list"
  | ctx_login_form LoginForm
  | ctx_register_form RegisterForm
  | ctx_sell_rice_form SellRiceForm
  | ctx_product "('f, 'q) RiceProduct"
  | ctx_payment "('f, 'q) RiceProduct" "string option"

text \<open>
  \<open>abort n\<close> is the HTTP error response with status \<open>n\<close>; \<open>unhandled_exception\<close> is
  an exception that leaves the handler (the framework answers with status 500).
\<close>

datatype ('f, 'q) response =
    render_template string "('f, 'q) template_context"
  | redirect string
  | abort nat
  | unhandled_exception

text \<open>
  The paths of the route decorators, by endpoint name (the name of the handler), for
  the routes without a URL parameter. The handlers build the URLs of \<open>index\<close>,
  \<open>login\<close> and \<open>register\<close> only; the empty path stands for the names that Flask cannot
  build, which no handler passes.
\<close>

definition url_for :: "string \<Rightarrow> string" where
  "url_for endpoint =
     (if endpoint = ''index'' then ''/''
      else if endpoint = ''login'' then ''/login''
      else if endpoint = ''register'' then ''/register''
      else if endpoint = ''sell_rice'' then ''/sell_rice''
      else if endpoint = ''profile'' then ''/profile''
      else [])"

subsection \<open>Framework operations\<close>

text \<open>\<open>flash(message, category)\<close>; the category is \<open>message\<close> when the call gives none.\<close>

definition flash :: "string \<Rightarrow> string \<Rightarrow> ('f, 'q) app_state \<Rightarrow> ('f, 'q) app_state" where
  "flash message category st = st\<lparr>flashes := flashes st @ [(category, message)]\<rparr>"

text \<open>\<open>Model.query.get(id)\<close>: the row with that primary key.\<close>

definition query_get :: "('r \<Rightarrow> int) \<Rightarrow> 'r list \<Rightarrow> int \<Rightarrow> 'r option" where
  "query_get pk rows i = find (\<lambda>r. pk r = i) rows"

text \<open>
  \<open>Model.query.get_or_404(id)\<close> for an id taken from the URL. The URL rule \<open><int:id>\<close>
  accepts every run of digits, and the keys of the store are signed 64-bit integers: an
  id outside that range is the key of no row, and binding it for the query raises
  OverflowError, which leaves the handler. An id in the range that is the key of no
  row is answered with 404.
\<close>

definition sqlite_integer :: "int \<Rightarrow> bool" where
  "sqlite_integer i = (- (2 ^ 63) \<le> i \<and> i < 2 ^ 63)"

datatype 'r lookup = found 'r | not_found | overflow_error

definition get_or_404 :: "('r \<Rightarrow> int) \<Rightarrow> 'r list \<Rightarrow> int \<Rightarrow> 'r lookup" where
  "get_or_404 pk rows i =
     (case query_get pk rows i of
        Some r \<Rightarrow> found r
      | None \<Rightarrow> if sqlite_integer i then not_found else overflow_error)"

text \<open>\<open>Farmer.query.filter_by(username=u).first()\<close>.\<close>

definition filter_by_username_first :: "Farmer list \<Rightarrow> string \<Rightarrow> Farmer option" where
  "filter_by_username_first rows u = find (\<lambda>f. f_username f = u) rows"

text \<open>
  The primary key that the store gives a row inserted without one: 1 in an empty
  table, else one more than the largest key of the table.
\<close>

definition next_id :: "int list \<Rightarrow> int" where
  "next_id ids = (if ids = [] then 1 else fold max ids (hd ids) + 1)"

text \<open>\<open>load_user\<close> (app.py, lines 76-78) and Flask-Login's \<open>current_user\<close>.\<close>

definition load_user :: "('f, 'q) app_state \<Rightarrow> int \<Rightarrow> Farmer option" where
  "load_user st user_id = query_get f_id (farmer_table st) user_id"

definition current_user :: "('f, 'q) app_state \<Rightarrow> Farmer option" where
  "current_user st = (case session_user_id st of None \<Rightarrow> None | Some i \<Rightarrow> load_user st i)"

definition login_user :: "Farmer \<Rightarrow> ('f, 'q) app_state \<Rightarrow> ('f, 'q) app_state" where
  "login_user farmer st = st\<lparr>session_user_id := Some (f_id farmer)\<rparr>"

text \<open>
  What \<open>login_required\<close> answers when nobody is logged in: Flask-Login flashes its
  message and redirects to the login view (\<open>login_manager.login_view = 'login'\<close>).
  The redirect's \<open>next\<close> query parameter, the URL that was asked for, is left out.
\<close>

definition unauthorized :: "('f, 'q) app_state \<Rightarrow> ('f, 'q) response \<times> ('f, 'q) app_state" where
  "unauthorized st =
     (redirect (url_for ''login''), flash ''Please log in to access this page.'' ''message'' st)"

subsection \<open>Route handlers\<close>

text \<open>\<open>index\<close> (app.py, lines 82-85).\<close>

definition index :: "('f, 'q) app_state \<Rightarrow> ('f, 'q) response \<times> ('f, 'q) app_state" where
  "index st =
     (let products = rice_product_table st
      in (render_template ''index.html'' (ctx_products products), st))"

text \<open>\<open>login\<close> (app.py, lines 88-99).\<close>

definition login ::
  "('f, 'q) library \<Rightarrow> LoginForm \<Rightarrow> ('f, 'q) app_state \<Rightarrow> ('f, 'q) response \<times> ('f, 'q) app_state" where
  "login lib form st =
     (if LoginForm_validate_on_submit lib form then
        (case filter_by_username_first (farmer_table st) (lf_username form) of
           None \<Rightarrow>
             (render_template ''login.html'' (ctx_login_form form),
              flash ''Invalid username or password'' ''error'' st)
         | Some farmer \<Rightarrow>
             if check_password_hash lib (f_password farmer) (lf_password form) then
               (redirect (url_for ''index''),
                flash ''Logged in successfully!'' ''message'' (login_user farmer st))
             else
               (render_template ''login.html'' (ctx_login_form form),
                flash ''Invalid username or password'' ''error'' st))
      else (render_template ''login.html'' (ctx_login_form form), st))"

text \<open>
  \<open>register\<close> (app.py, lines 117-138). \<open>salt\<close> is the salt that
  \<open>generate_password_hash\<close> draws. The new row gets its key from the store and no
  QR code.
\<close>

definition register ::
  "('f, 'q) library \<Rightarrow> string \<Rightarrow> RegisterForm \<Rightarrow> ('f, 'q) app_state
     \<Rightarrow> ('f, 'q) response \<times> ('f, 'q) app_state" where
  "register lib salt form st =
     (if RegisterForm_validate_on_submit lib form then
        (case filter_by_username_first (farmer_table st) (rf_username form) of
           Some user_exists \<Rightarrow>
             (redirect (url_for ''register''),
              flash ''Username already exists. Please choose another.'' ''error'' st)
         | None \<Rightarrow>
             (let hashed_password = generate_password_hash lib salt (rf_password form);
                  farmer = \<lparr>f_id = next_id (map f_id (farmer_table st)),
                            f_username = rf_username form,
                            f_password = hashed_password,
                            f_role = rf_role form,
                            f_qr_code = None\<rparr>
              in (redirect (url_for ''login''),
                  flash ''Registered successfully!'' ''message''
                    (st\<lparr>farmer_table := farmer_table st @ [farmer]\<rparr>))))
      else (render_template ''register.html'' (ctx_register_form form), st))"

text \<open>\<open>product_details\<close> (app.py, lines 173-176).\<close>

definition product_details ::
  "int \<Rightarrow> ('f, 'q) app_state \<Rightarrow> ('f, 'q) response \<times> ('f, 'q) app_state" where
  "product_details i st =
     (case get_or_404 p_id (rice_product_table st) i of
        overflow_error \<Rightarrow> (unhandled_exception, st)
      | not_found \<Rightarrow> (abort 404, st)
      | found product \<Rightarrow> (render_template ''product_details.html'' (ctx_product product), st))"

text \<open>
  The upload of \<open>sell_rice\<close> (app.py, lines 150-156). A FileStorage with an empty
  filename is falsy, like no file. \<open>save\<close> writes the bytes at the path; a path that
  names no file (it ends in a slash, as the folder joined with an empty name does)
  cannot be opened and the call raises. The upload folder is taken to exist.
\<close>

definition UPLOAD_FOLDER :: string where
  "UPLOAD_FOLDER = ''static/uploads''"

definition os_path_join :: "string \<Rightarrow> string \<Rightarrow> string" where
  "os_path_join a b =
     (if b \<noteq> [] \<and> hd b = CHR ''/'' then b
      else if a = [] \<or> last a = CHR ''/'' then a @ b
      else a @ ''/'' @ b)"

definition FileStorage_save ::
  "FileStorage \<Rightarrow> string \<Rightarrow> ('f, 'q) app_state \<Rightarrow> ('f, 'q) app_state option" where
  "FileStorage_save file filepath st =
     (if filepath = [] \<or> last filepath = CHR ''/'' then None
      else Some (st\<lparr>upload_files := (upload_files st)(filepath \<mapsto> fs_content file)\<rparr>))"

definition handle_image_upload ::
  "('f, 'q) library \<Rightarrow> SellRiceForm \<Rightarrow> ('f, 'q) app_state
     \<Rightarrow> (string option \<times> ('f, 'q) app_state) option" where
  "handle_image_upload lib form st =
     (case sf_image form of
        None \<Rightarrow> Some (None, st)
      | Some file \<Rightarrow>
          if fs_filename file = [] then Some (None, st)
          else
            (let filename = secure_filename lib (fs_filename file);
                 filepath = os_path_join UPLOAD_FOLDER filename
             in case FileStorage_save file filepath st of
                  None \<Rightarrow> None
                | Some st' \<Rightarrow> Some (Some filename, st')))"

text \<open>
  \<open>db.session.add(rice)\<close> and \<open>db.session.commit()\<close> (app.py, lines 158-167): the
  price and the quantity become what their columns keep, and the commit raises
  (\<open>None\<close>) when the price cannot be kept; else the row is appended under a new key.
\<close>

definition add_rice_product ::
  "('f, 'q) library \<Rightarrow> string \<Rightarrow> string option \<Rightarrow> string \<Rightarrow> string \<Rightarrow> string option \<Rightarrow> int
     \<Rightarrow> ('f, 'q) app_state \<Rightarrow> ('f, 'q) app_state option" where
  "add_rice_product lib name description price quantity image_name farmer_id st =
     (case float_column lib price of
        None \<Rightarrow> None
      | Some price_value \<Rightarrow>
          Some (st\<lparr>rice_product_table := rice_product_table st @
            [\<lparr>p_id = next_id (map p_id (rice_product_table st)),
              p_name = name,
              p_description = description,
              p_price = price_value,
              p_quantity = integer_column lib quantity,
              p_image = image_name,
              p_farmer_id = farmer_id\<rparr>]\<rparr>))"

text \<open>\<open>sell_rice\<close> (app.py, lines 141-170).\<close>

definition sell_rice ::
  "('f, 'q) library \<Rightarrow> SellRiceForm \<Rightarrow> ('f, 'q) app_state
     \<Rightarrow> ('f, 'q) response \<times> ('f, 'q) app_state" where
  "sell_rice lib form st =
     (case current_user st of
        None \<Rightarrow> unauthorized st
      | Some user \<Rightarrow>
          if f_role user \<noteq> ''farmer'' then
            (redirect (url_for ''index''),
             flash ''You must be a farmer to sell rice.'' ''message'' st)
          else if SellRiceForm_validate_on_submit lib form then
            (case handle_image_upload lib form st of
               None \<Rightarrow> (unhandled_exception, st)
             | Some (filename, st1) \<Rightarrow>
                 (case add_rice_product lib (sf_name form) (sf_description form)
                         (sf_price form) (sf_quantity form) filename (f_id user) st1 of
                    None \<Rightarrow> (unhandled_exception, st1)
                  | Some st2 \<Rightarrow>
                      (redirect (url_for ''index''),
                       flash ''Rice product added!'' ''message'' st2)))
          else (render_template ''sell_rice.html'' (ctx_sell_rice_form form), st))"

text \<open>\<open>profile\<close> (app.py, lines 189-196).\<close>

definition profile :: "('f, 'q) app_state \<Rightarrow> ('f, 'q) response \<times> ('f, 'q) app_state" where
  "profile st =
     (case current_user st of
        None \<Rightarrow> unauthorized st
      | Some user \<Rightarrow>
          if f_role user \<noteq> ''farmer'' then
            (redirect (url_for ''index''),
             flash ''You must be a farmer to view this page.'' ''message'' st)
          else
            (let products = filter (\<lambda>p. p_farmer_id p = f_id user) (rice_product_table st)
             in (render_template ''profile.html'' (ctx_products products), st)))"

text \<open>
  \<open>buy_now\<close> (app.py, lines 210-227). The product is looked up by the id of the URL.
  The owner is looked up by \<open>product.farmer_id\<close>, a value read from the store, which
  binds: that lookup finds the row or answers 404.
\<close>

definition buy_now ::
  "int \<Rightarrow> ('f, 'q) app_state \<Rightarrow> ('f, 'q) response \<times> ('f, 'q) app_state" where
  "buy_now i st =
     (case current_user st of
        None \<Rightarrow> unauthorized st
      | Some user \<Rightarrow>
          if f_role user \<noteq> ''buyer'' then
            (redirect (url_for ''index''),
             flash ''Only buyers can make purchases.'' ''message'' st)
          else
            (case get_or_404 p_id (rice_product_table st) i of
               overflow_error \<Rightarrow> (unhandled_exception, st)
             | not_found \<Rightarrow> (abort 404, st)
             | found product \<Rightarrow>
                 (case query_get f_id (farmer_table st) (p_farmer_id product) of
                    None \<Rightarrow> (abort 404, st)
                  | Some farmer \<Rightarrow>
                      (let farmer_qr_code = f_qr_code farmer
                       in (render_template ''payment_page.html''
                             (ctx_payment product farmer_qr_code), st)))))"

subsection \<open>Requests and runs\<close>

text \<open>
  A request names its route and carries what the handler reads: the form, the id of
  the URL, and for \<open>/register\<close> the salt drawn while it is served. A run serves a list
  of requests in order, from the state of a fresh installation (\<open>db.create_all()\<close>:
  empty tables, nobody logged in).
\<close>

datatype request =
    req_index
  | req_login LoginForm
  | req_register string RegisterForm
  | req_sell_rice SellRiceForm
  | req_product_details int
  | req_profile
  | req_buy_now int

fun dispatch ::
  "('f, 'q) library \<Rightarrow> request \<Rightarrow> ('f, 'q) app_state \<Rightarrow> ('f, 'q) response \<times> ('f, 'q) app_state" where
  "dispatch lib req_index st = index st"
| "dispatch lib (req_login form) st = login lib form st"
| "dispatch lib (req_register salt form) st = register lib salt form st"
| "dispatch lib (req_sell_rice form) st = sell_rice lib form st"
| "dispatch lib (req_product_details i) st = product_details i st"
| "dispatch lib req_profile st = profile st"
| "dispatch lib (req_buy_now i) st = buy_now i st"

definition initial_state :: "('f, 'q) app_state" where
  "initial_state =
     \<lparr>farmer_table = [], rice_product_table = [], session_user_id = None,
      flashes = [], upload_files = Map.empty\<rparr>"

fun run :: "('f, 'q) library \<Rightarrow> request list \<Rightarrow> ('f, 'q) app_state \<Rightarrow> ('f, 'q) app_state" where
  "run lib [] st = st"
| "run lib (r # rs) st = run lib rs (snd (dispatch lib r st))"

subsection \<open>Invariants of the store and the session\<close>

text \<open>
  What the schema and the handlers keep true of every state a run reaches: primary keys
  and usernames are unique, the session names an existing account, every product's
  owner exists, and no account has a QR code.
\<close>

definition unique_keys :: "('f, 'q) app_state \<Rightarrow> bool" where
  "unique_keys st =
     (distinct (map f_id (farmer_table st)) \<and> distinct (map p_id (rice_product_table st)))"

definition unique_usernames :: "('f, 'q) app_state \<Rightarrow> bool" where
  "unique_usernames st = distinct (map f_username (farmer_table st))"

definition session_valid :: "('f, 'q) app_state \<Rightarrow> bool" where
  "session_valid st =
     (case session_user_id st of
        None \<Rightarrow> True
      | Some i \<Rightarrow> i \<in> f_id ` set (farmer_table st))"

definition owners_exist :: "('f, 'q) app_state \<Rightarrow> bool" where
  "owners_exist st =
     list_all (\<lambda>p. p_farmer_id p \<in> f_id ` set (farmer_table st)) (rice_product_table st)"

definition no_qr_codes :: "('f, 'q) app_state \<Rightarrow> bool" where
  "no_qr_codes st = list_all (\<lambda>f. f_qr_code f = None) (farmer_table st)"

definition state_invariant :: "('f, 'q) app_state \<Rightarrow> bool" where
  "state_invariant st =
     (unique_keys st \<and> unique_usernames st \<and> session_valid st \<and> owners_exist st
      \<and> no_qr_codes st)"

subsection \<open>A concrete library and a small shop\<close>

text \<open>
  An instance of the library for running the handlers on concrete inputs: a toy hash
  (the password reversed, a dollar sign, the salt), names without slashes, blanks
  stripped, and numbers kept as their decimal text.
\<close>

definition demo_library :: "(string, string) library" where
  "demo_library =
     \<lparr>generate_password_hash = (\<lambda>salt password. rev password @ ''$'' @ salt),
      check_password_hash = (\<lambda>pwhash password.
         take (Suc (length password)) pwhash = rev password @ ''$''),
      secure_filename = filter (\<lambda>c. c \<noteq> CHR ''/''),
      str_strip = (\<lambda>s. rev (dropWhile (\<lambda>c. c = CHR '' '')
                     (rev (dropWhile (\<lambda>c. c = CHR '' '') s)))),
      float_column = (\<lambda>s. if s \<noteq> [] \<and> list_all (\<lambda>c. c \<in> set ''0123456789.'') s
                         then Some s else None),
      integer_column = (\<lambda>s. s)\<rparr>"

definition alice :: Farmer where
  "alice = \<lparr>f_id = 1, f_username = ''alice'', f_password = ''terces$na'',
            f_role = ''farmer'', f_qr_code = None\<rparr>"

definition bob :: Farmer where
  "bob = \<lparr>f_id = 2, f_username = ''bob'', f_password = ''drowssap$cl'',
          f_role = ''buyer'', f_qr_code = None\<rparr>"

definition basmati :: "(string, string) RiceProduct" where
  "basmati = \<lparr>p_id = 1, p_name = ''Basmati'', p_description = Some ''long grain'',
              p_price = ''120.5'', p_quantity = ''50'', p_image = None, p_farmer_id = 1\<rparr>"

text \<open>The shop with two accounts and one product, as seen by the session \<open>who\<close>.\<close>

definition shop :: "int option \<Rightarrow> (string, string) app_state" where
  "shop who = \<lparr>farmer_table = [alice, bob], rice_product_table = [basmati],
               session_user_id = who, flashes = [], upload_files = Map.empty\<rparr>"

text \<open>
  A product whose owner is not in the farmer table, a filled-in sell form, and (further
  down) the same form with a price that is not a number.
\<close>

definition orphan :: "(string, string) RiceProduct" where
  "orphan = \<lparr>p_id = 2, p_name = ''Jasmine'', p_description = None,
             p_price = ''80'', p_quantity = ''10'', p_image = None, p_farmer_id = 9\<rparr>"

definition shop_with_orphan :: "int option \<Rightarrow> (string, string) app_state" where
  "shop_with_orphan who = (shop who)\<lparr>rice_product_table := [basmati, orphan]\<rparr>"

definition basmati_form :: SellRiceForm where
  "basmati_form = \<lparr>request_method = POST, csrf_token_valid = True,
     sf_name = ''Basmati'', sf_description = Some ''long grain'', sf_price = ''120.5'',
     sf_quantity = ''50'', sf_image = None\<rparr>"

text \<open>Registration forms (a taken username, a new one, a mistyped confirmation), the row
  that the new one creates in the shop, and two login forms.\<close>

definition no_number_form :: SellRiceForm where
  "no_number_form = basmati_form\<lparr>sf_price := ''abc''\<rparr>"

definition alice_again :: RegisterForm where
  "alice_again = \<lparr>request_method = POST, csrf_token_valid = True,
     rf_username = ''alice'', rf_password = ''hunter2'', rf_confirm_password = ''hunter2'',
     rf_role = ''buyer''\<rparr>"

definition carol_form :: RegisterForm where
  "carol_form = \<lparr>request_method = POST, csrf_token_valid = True,
     rf_username = ''carol'', rf_password = ''hunter2'', rf_confirm_password = ''hunter2'',
     rf_role = ''farmer''\<rparr>"

definition carol_typo :: RegisterForm where
  "carol_typo = carol_form\<lparr>rf_confirm_password := ''hunter3''\<rparr>"

definition carol :: Farmer where
  "carol = \<lparr>f_id = 3, f_username = ''carol'', f_password = ''2retnuh$pepper'',
            f_role = ''farmer'', f_qr_code = None\<rparr>"

definition carol_login :: LoginForm where
  "carol_login = \<lparr>request_method = POST, csrf_token_valid = True,
     lf_username = ''carol'', lf_password = ''hunter2''\<rparr>"

definition alice_wrong_login :: LoginForm where
  "alice_wrong_login = \<lparr>request_method = POST, csrf_token_valid = True,
     lf_username = ''alice'', lf_password = ''hunter2''\<rparr>"

text \<open>
  What a client holds of the state after a response: the session's account id and the
  flashed messages. Then a login form for a name that is not registered, a User object
  and the row that \<open>basmati_form\<close> adds to the shop.
\<close>

definition client_view :: "('f, 'q) app_state \<Rightarrow> int option \<times> (string \<times> string) list" where
  "client_view st = (session_user_id st, flashes st)"

definition mallory_login :: LoginForm where
  "mallory_login = \<lparr>request_method = POST, csrf_token_valid = True,
     lf_username = ''mallory'', lf_password = ''hunter2''\<rparr>"

definition demo_user :: User where
  "demo_user = \<lparr>u_id = 1, u_username = ''dave'', u_email = ''dave@example.org'',
                u_password = []\<rparr>"

definition basmati_row :: "(string, string) RiceProduct" where
  "basmati_row = \<lparr>p_id = 2, p_name = ''Basmati'', p_description = Some ''long grain'',
                  p_price = ''120.5'', p_quantity = ''50'', p_image = None, p_farmer_id = 1\<rparr>"

section \<open>Properties\<close>

subsection \<open>Keys and queries\<close>

lemma fold_max_ge: "(a::int) \<le> fold max xs a"
  by (induction xs arbitrary: a) (auto intro: order_trans [OF max.cobounded2])

lemma fold_max_upper: "x \<in> set xs \<Longrightarrow> (x::int) \<le> fold max xs a"
proof (induction xs arbitrary: a)
  case Nil
  then show ?case by simp
next
  case (Cons y ys)
  show ?case
  proof (cases "x = y")
    case True
    have "y \<le> max y a" by simp
    also have "\<dots> \<le> fold max ys (max y a)" by (rule fold_max_ge)
    finally show ?thesis using True by simp
  next
    case False
    with Cons.prems have "x \<in> set ys" by simp
    then show ?thesis using Cons.IH by simp
  qed
qed

text \<open>The key of a new row is not a key of the table.\<close>

lemma next_id_fresh: "next_id ids \<notin> set ids"
proof
  assume "next_id ids \<in> set ids"
  then have "next_id ids \<le> fold max ids (hd ids)" by (rule fold_max_upper)
  moreover have "ids \<noteq> []" using \<open>next_id ids \<in> set ids\<close> by auto
  ultimately show False by (simp add: next_id_def)
qed

lemma query_get_None: "query_get pk rows i = None \<longleftrightarrow> i \<notin> pk ` set rows"
  by (auto simp: query_get_def find_None_iff)

lemma query_get_Some_pk: "query_get pk rows i = Some r \<Longrightarrow> r \<in> set rows \<and> pk r = i"
  by (auto simp: query_get_def find_Some_iff)

lemma query_get_distinct:
  "distinct (map pk rows) \<Longrightarrow> r \<in> set rows \<Longrightarrow> query_get pk rows (pk r) = Some r"
  unfolding query_get_def
  by (induction rows) auto

text \<open>
  \<open>get_or_404\<close> by cases. In a table whose keys are all keys of the store, it is the
  lookup that binds the id first and raises before it looks for a row.
\<close>

lemma get_or_404_found:
  "distinct (map pk rows) \<Longrightarrow> r \<in> set rows \<Longrightarrow> get_or_404 pk rows (pk r) = found r"
  by (simp add: get_or_404_def query_get_distinct)



lemma get_or_404_bind_first:
  assumes "list_all (\<lambda>r. sqlite_integer (pk r)) rows"
  shows "get_or_404 pk rows i =
     (if \<not> sqlite_integer i then overflow_error
      else case query_get pk rows i of None \<Rightarrow> not_found | Some r \<Rightarrow> found r)"
proof (cases "query_get pk rows i")
  case None
  then show ?thesis by (simp add: get_or_404_def)
next
  case (Some r)
  then have "r \<in> set rows \<and> pk r = i" by (rule query_get_Some_pk)
  with assms have "sqlite_integer i" by (auto simp: list_all_iff)
  with Some show ?thesis by (simp add: get_or_404_def)
qed

lemma product_details_state: "snd (product_details i st) = st"
  by (simp add: product_details_def split: lookup.split)

subsection \<open>The product page\<close>




subsection \<open>Routes, sessions and the example accounts\<close>

lemma url_for_index [simp]: "url_for ''index'' = ''/''"
  by (simp add: url_for_def)

lemma url_for_login [simp]: "url_for ''login'' = ''/login''"
  by (simp add: url_for_def)

lemma url_for_register [simp]: "url_for ''register'' = ''/register''"
  by (simp add: url_for_def)

lemma current_user_session:
  "current_user st = Some user \<Longrightarrow>
     user \<in> set (farmer_table st) \<and> session_user_id st = Some (f_id user)"
  by (auto simp: current_user_def load_user_def split: option.splits dest: query_get_Some_pk)

lemma current_user_shop_alice: "current_user (shop (Some 1)) = Some alice"
  by (simp add: current_user_def load_user_def query_get_def shop_def alice_def bob_def)

lemma current_user_shop_bob: "current_user (shop (Some 2)) = Some bob"
  by (simp add: current_user_def load_user_def query_get_def shop_def alice_def bob_def)

subsection \<open>Selling requires the farmer role\<close>

text \<open>
  C3. A logged-in account whose role is not \<open>farmer\<close> gets, for any request to
  \<open>/sell_rice\<close> (whatever its method and form), a redirect to \<open>/\<close>; the message
  \<open>You must be a farmer to sell rice.\<close> is flashed and nothing else changes: the
  product table is the same.
\<close>

theorem sell_rice_requires_farmer:
  assumes "current_user st = Some user" and "f_role user \<noteq> ''farmer''"
  shows "fst (sell_rice lib form st) = redirect ''/''
     \<and> snd (sell_rice lib form st)
         = st\<lparr>flashes := flashes st @ [(''message'', ''You must be a farmer to sell rice.'')]\<rparr>
     \<and> rice_product_table (snd (sell_rice lib form st)) = rice_product_table st"
  using assms by (simp add: sell_rice_def flash_def)

theorem sell_rice_requires_farmer_witness:
  "current_user (shop (Some 2)) = Some bob \<and> f_role bob \<noteq> ''farmer''
   \<and> fst (sell_rice demo_library basmati_form (shop (Some 2))) = redirect ''/''
   \<and> rice_product_table (snd (sell_rice demo_library basmati_form (shop (Some 2)))) = [basmati]"
proof -
  have r: "f_role bob \<noteq> ''farmer''" by (simp add: bob_def)
  have t: "rice_product_table (shop (Some 2)) = [basmati]" by (simp add: shop_def)
  show ?thesis
    using sell_rice_requires_farmer [OF current_user_shop_bob r, of demo_library basmati_form]
      current_user_shop_bob r t
    by simp
qed

subsection \<open>The payment page\<close>

text \<open>
  C9. For a logged-in buyer, when the product with the given id exists and no row of
  the farmer table has the id that the product names as its owner, \<open>/buy_now/<id>\<close>
  answers 404 and renders nothing.
\<close>

theorem buy_now_orphan_404:
  assumes "current_user st = Some user" and "f_role user = ''buyer''"
    and "distinct (map p_id (rice_product_table st))"
    and "product \<in> set (rice_product_table st)" and "p_id product = i"
    and "p_farmer_id product \<notin> f_id ` set (farmer_table st)"
  shows "buy_now i st = (abort 404, st)"
proof -
  have "get_or_404 p_id (rice_product_table st) i = found product"
    using assms(3-5) get_or_404_found [of p_id "rice_product_table st" product] by auto
  moreover have "query_get f_id (farmer_table st) (p_farmer_id product) = None"
    using assms(6) by (simp add: query_get_None)
  ultimately show ?thesis
    using assms(1,2) by (simp add: buy_now_def)
qed

theorem buy_now_orphan_404_witness:
  "current_user (shop_with_orphan (Some 2)) = Some bob \<and> f_role bob = ''buyer''
   \<and> distinct (map p_id (rice_product_table (shop_with_orphan (Some 2))))
   \<and> orphan \<in> set (rice_product_table (shop_with_orphan (Some 2)))
   \<and> p_id orphan = 2
   \<and> p_farmer_id orphan \<notin> f_id ` set (farmer_table (shop_with_orphan (Some 2)))
   \<and> buy_now 2 (shop_with_orphan (Some 2)) = (abort 404, shop_with_orphan (Some 2))"
proof -
  have a: "current_user (shop_with_orphan (Some 2)) = Some bob"
    by (simp add: current_user_def load_user_def query_get_def shop_with_orphan_def shop_def
        alice_def bob_def)
  have b: "f_role bob = ''buyer''" by (simp add: bob_def)
  have c: "distinct (map p_id (rice_product_table (shop_with_orphan (Some 2))))"
    by (simp add: shop_with_orphan_def basmati_def orphan_def)
  have d: "orphan \<in> set (rice_product_table (shop_with_orphan (Some 2)))"
    by (simp add: shop_with_orphan_def)
  have e: "p_id orphan = 2" by (simp add: orphan_def)
  have f: "p_farmer_id orphan \<notin> f_id ` set (farmer_table (shop_with_orphan (Some 2)))"
    by (simp add: shop_with_orphan_def shop_def orphan_def alice_def bob_def)
  from buy_now_orphan_404 [OF a b c d e f] a b c d e f show ?thesis by simp
qed

subsection \<open>Registration\<close>

lemma filter_by_username_first_None:
  "filter_by_username_first rows u = None \<longleftrightarrow> u \<notin> f_username ` set rows"
  by (auto simp: filter_by_username_first_def find_None_iff)

lemma filter_by_username_first_Some:
  "filter_by_username_first rows u = Some f \<Longrightarrow> f \<in> set rows \<and> f_username f = u"
  by (auto simp: filter_by_username_first_def find_Some_iff)

lemma filter_by_username_first_new:
  "u \<notin> f_username ` set rows \<Longrightarrow> f_username f = u \<Longrightarrow>
     filter_by_username_first (rows @ [f]) u = Some f"
  unfolding filter_by_username_first_def
  by (induction rows) auto

lemma query_get_append_old:
  "i \<in> pk ` set rows \<Longrightarrow> query_get pk (rows @ extra) i = query_get pk rows i"
  unfolding query_get_def
  by (induction rows) auto

lemma register_invalid:
  "\<not> RegisterForm_validate_on_submit lib form \<Longrightarrow>
     register lib salt form st = (render_template ''register.html'' (ctx_register_form form), st)"
  by (simp add: register_def)

lemma register_duplicate:
  assumes "RegisterForm_validate_on_submit lib form"
    and "rf_username form \<in> f_username ` set (farmer_table st)"
  shows "register lib salt form st
     = (redirect ''/register'',
        st\<lparr>flashes := flashes st
              @ [(''error'', ''Username already exists. Please choose another.'')]\<rparr>)"
proof -
  from assms(2) obtain f where "filter_by_username_first (farmer_table st) (rf_username form) = Some f"
    using filter_by_username_first_None [of "farmer_table st" "rf_username form"] by auto
  with assms(1) show ?thesis by (simp add: register_def flash_def)
qed

lemma register_new:
  assumes "RegisterForm_validate_on_submit lib form"
    and "rf_username form \<notin> f_username ` set (farmer_table st)"
  shows "register lib salt form st
     = (redirect ''/login'',
        st\<lparr>farmer_table := farmer_table st @
              [\<lparr>f_id = next_id (map f_id (farmer_table st)),
                f_username = rf_username form,
                f_password = generate_password_hash lib salt (rf_password form),
                f_role = rf_role form,
                f_qr_code = None\<rparr>],
           flashes := flashes st @ [(''message'', ''Registered successfully!'')]\<rparr>)"
proof -
  from assms(2) have "filter_by_username_first (farmer_table st) (rf_username form) = None"
    by (simp add: filter_by_username_first_None)
  with assms(1) show ?thesis by (simp add: register_def flash_def Let_def)
qed

lemma demo_DataRequired:
  "DataRequired demo_library s \<longleftrightarrow>
     s \<noteq> [] \<and> rev (dropWhile (\<lambda>c. c = CHR '' '') (rev (dropWhile (\<lambda>c. c = CHR '' '') s))) \<noteq> []"
  by (simp add: DataRequired_def demo_library_def)

lemma alice_again_valid: "RegisterForm_validate_on_submit demo_library alice_again"
  by (simp add: RegisterForm_validate_on_submit_def is_submitted_def demo_DataRequired
      EqualTo_def role_choices_def alice_again_def)

lemma carol_form_valid: "RegisterForm_validate_on_submit demo_library carol_form"
  by (simp add: RegisterForm_validate_on_submit_def is_submitted_def demo_DataRequired
      EqualTo_def role_choices_def carol_form_def)

lemma carol_typo_invalid: "\<not> RegisterForm_validate_on_submit demo_library carol_typo"
  by (simp add: RegisterForm_validate_on_submit_def EqualTo_def carol_typo_def carol_form_def)

lemma shop_usernames: "f_username ` set (farmer_table (shop who)) = {''alice'', ''bob''}"
  by (simp add: shop_def alice_def bob_def)

lemma shop_next_farmer_id: "next_id (map f_id (farmer_table (shop who))) = 3"
  by (simp add: next_id_def shop_def alice_def bob_def)

text \<open>
  C2. When a row of the farmer table has the submitted username, no submission adds a
  row to the table, and one that passes the form's validation is answered with the
  flashed error \<open>Username already exists. Please choose another.\<close> and the redirect
  to \<open>/register\<close>. When no row has the username, a submission that passes the
  validation adds exactly one row, which holds the submitted username, the output of
  \<open>generate_password_hash\<close> on the submitted password (the salted hash, where the
  handler could have stored the password itself) and the chosen role, one of \<open>farmer\<close>
  and \<open>buyer\<close>; the answer is the redirect to \<open>/login\<close>.
\<close>

theorem register_duplicate_or_created:
  "(rf_username form \<in> f_username ` set (farmer_table st) \<longrightarrow>
      farmer_table (snd (register lib salt form st)) = farmer_table st)
   \<and> (RegisterForm_validate_on_submit lib form
        \<and> rf_username form \<in> f_username ` set (farmer_table st) \<longrightarrow>
      fst (register lib salt form st) = redirect ''/register''
      \<and> flashes (snd (register lib salt form st))
          = flashes st @ [(''error'', ''Username already exists. Please choose another.'')])
   \<and> (RegisterForm_validate_on_submit lib form
        \<and> rf_username form \<notin> f_username ` set (farmer_table st) \<longrightarrow>
      fst (register lib salt form st) = redirect ''/login''
      \<and> farmer_table (snd (register lib salt form st))
          = farmer_table st @
            [\<lparr>f_id = next_id (map f_id (farmer_table st)),
              f_username = rf_username form,
              f_password = generate_password_hash lib salt (rf_password form),
              f_role = rf_role form,
              f_qr_code = None\<rparr>]
      \<and> (rf_role form = ''farmer'' \<or> rf_role form = ''buyer''))"
proof (intro conjI impI)
  assume dup: "rf_username form \<in> f_username ` set (farmer_table st)"
  show "farmer_table (snd (register lib salt form st)) = farmer_table st"
  proof (cases "RegisterForm_validate_on_submit lib form")
    case True
    then show ?thesis by (simp add: register_duplicate [OF True dup])
  next
    case False
    then show ?thesis by (simp add: register_invalid)
  qed
next
  assume "RegisterForm_validate_on_submit lib form
    \<and> rf_username form \<in> f_username ` set (farmer_table st)"
  then have r: "register lib salt form st
     = (redirect ''/register'',
        st\<lparr>flashes := flashes st
              @ [(''error'', ''Username already exists. Please choose another.'')]\<rparr>)"
    by (simp add: register_duplicate)
  show "fst (register lib salt form st) = redirect ''/register''" by (simp add: r)
  show "flashes (snd (register lib salt form st))
      = flashes st @ [(''error'', ''Username already exists. Please choose another.'')]"
    by (simp add: r)
next
  assume h: "RegisterForm_validate_on_submit lib form
    \<and> rf_username form \<notin> f_username ` set (farmer_table st)"
  then have valid: "RegisterForm_validate_on_submit lib form"
    and new: "rf_username form \<notin> f_username ` set (farmer_table st)"
    by simp_all
  note r = register_new [OF valid new, of salt]
  show "fst (register lib salt form st) = redirect ''/login''" by (simp add: r)
  show "farmer_table (snd (register lib salt form st))
      = farmer_table st @
        [\<lparr>f_id = next_id (map f_id (farmer_table st)),
          f_username = rf_username form,
          f_password = generate_password_hash lib salt (rf_password form),
          f_role = rf_role form,
          f_qr_code = None\<rparr>]"
    by (simp add: r)
  show "rf_role form = ''farmer'' \<or> rf_role form = ''buyer''"
    using valid by (auto simp: RegisterForm_validate_on_submit_def role_choices_def)
qed

theorem register_duplicate_or_created_witness:
  "RegisterForm_validate_on_submit demo_library alice_again
   \<and> rf_username alice_again \<in> f_username ` set (farmer_table (shop None))
   \<and> fst (register demo_library ''pepper'' alice_again (shop None)) = redirect ''/register''
   \<and> farmer_table (snd (register demo_library ''pepper'' alice_again (shop None))) = [alice, bob]
   \<and> RegisterForm_validate_on_submit demo_library carol_form
   \<and> rf_username carol_form \<notin> f_username ` set (farmer_table (shop None))
   \<and> fst (register demo_library ''pepper'' carol_form (shop None)) = redirect ''/login''
   \<and> farmer_table (snd (register demo_library ''pepper'' carol_form (shop None)))
       = [alice, bob, carol]"
proof -
  have a: "rf_username alice_again \<in> f_username ` set (farmer_table (shop None))"
    by (simp add: shop_usernames alice_again_def)
  have c: "rf_username carol_form \<notin> f_username ` set (farmer_table (shop None))"
    by (simp add: shop_usernames carol_form_def)
  have t: "farmer_table (shop None) = [alice, bob]" by (simp add: shop_def)
  have n: "\<lparr>f_id = next_id (map f_id (farmer_table (shop None))),
            f_username = rf_username carol_form,
            f_password = generate_password_hash demo_library ''pepper'' (rf_password carol_form),
            f_role = rf_role carol_form,
            f_qr_code = None\<rparr> = carol"
    by (simp add: shop_next_farmer_id carol_form_def carol_def demo_library_def)
  have 1: "fst (register demo_library ''pepper'' alice_again (shop None)) = redirect ''/register''
     \<and> farmer_table (snd (register demo_library ''pepper'' alice_again (shop None)))
         = farmer_table (shop None)"
    using register_duplicate_or_created [of alice_again "shop None" demo_library "''pepper''"]
      a alice_again_valid
    by blast
  have "fst (register demo_library ''pepper'' carol_form (shop None)) = redirect ''/login''
     \<and> farmer_table (snd (register demo_library ''pepper'' carol_form (shop None)))
         = farmer_table (shop None) @
           [\<lparr>f_id = next_id (map f_id (farmer_table (shop None))),
             f_username = rf_username carol_form,
             f_password = generate_password_hash demo_library ''pepper'' (rf_password carol_form),
             f_role = rf_role carol_form,
             f_qr_code = None\<rparr>]"
    using register_duplicate_or_created [of carol_form "shop None" demo_library "''pepper''"]
      c carol_form_valid
    by blast
  then have 2: "fst (register demo_library ''pepper'' carol_form (shop None)) = redirect ''/login''
     \<and> farmer_table (snd (register demo_library ''pepper'' carol_form (shop None)))
         = farmer_table (shop None) @ [carol]"
    by (simp only: n)
  show ?thesis
    using 1 2 a c alice_again_valid carol_form_valid by (simp add: t)
qed

text \<open>
  The duplicate-username case answers with a redirect, not with the rendered form,
  and a submission that fails validation flashes nothing: registering \<open>alice\<close> again
  in the shop, and registering with a mistyped confirmation.
\<close>

theorem register_duplicate_redirects:
  "RegisterForm_validate_on_submit demo_library alice_again
   \<and> rf_username alice_again \<in> f_username ` set (farmer_table (shop None))
   \<and> fst (register demo_library ''pepper'' alice_again (shop None)) = redirect ''/register''
   \<and> fst (register demo_library ''pepper'' alice_again (shop None))
       \<noteq> render_template ''register.html'' (ctx_register_form alice_again)
   \<and> \<not> RegisterForm_validate_on_submit demo_library carol_typo
   \<and> flashes (snd (register demo_library ''pepper'' carol_typo (shop None)))
       = flashes (shop None)"
proof -
  have a: "rf_username alice_again \<in> f_username ` set (farmer_table (shop None))"
    by (simp add: shop_usernames alice_again_def)
  show ?thesis
    using a alice_again_valid carol_typo_invalid
    by (simp add: register_duplicate [OF alice_again_valid a] register_invalid [OF carol_typo_invalid])
qed

text \<open>
  C7, as the code has it. A submission that fails the form's validation gets the
  registration form rendered again, and the state (the flashed messages too) is as
  before. A valid submission with a taken username gets the error flashed and a
  redirect to \<open>/register\<close>.
\<close>

theorem register_failure_outcomes:
  "(\<not> RegisterForm_validate_on_submit lib form \<longrightarrow>
      register lib salt form st
        = (render_template ''register.html'' (ctx_register_form form), st))
   \<and> (RegisterForm_validate_on_submit lib form
        \<and> rf_username form \<in> f_username ` set (farmer_table st) \<longrightarrow>
      register lib salt form st
        = (redirect ''/register'',
           st\<lparr>flashes := flashes st
                 @ [(''error'', ''Username already exists. Please choose another.'')]\<rparr>))"
  using register_invalid register_duplicate by blast

theorem register_failure_outcomes_witness:
  "\<not> RegisterForm_validate_on_submit demo_library carol_typo
   \<and> register demo_library ''pepper'' carol_typo (shop None)
       = (render_template ''register.html'' (ctx_register_form carol_typo), shop None)
   \<and> RegisterForm_validate_on_submit demo_library alice_again
   \<and> rf_username alice_again \<in> f_username ` set (farmer_table (shop None))
   \<and> register demo_library ''pepper'' alice_again (shop None)
       = (redirect ''/register'',
          (shop None)\<lparr>flashes := flashes (shop None)
             @ [(''error'', ''Username already exists. Please choose another.'')]\<rparr>)"
proof -
  have a: "rf_username alice_again \<in> f_username ` set (farmer_table (shop None))"
    by (simp add: shop_usernames alice_again_def)
  show ?thesis
    using register_failure_outcomes [of demo_library carol_typo "''pepper''" "shop None"]
      register_failure_outcomes [of demo_library alice_again "''pepper''" "shop None"]
      a alice_again_valid carol_typo_invalid
    by blast
qed

subsection \<open>Login\<close>

lemma login_unknown_user:
  assumes "LoginForm_validate_on_submit lib form"
    and "lf_username form \<notin> f_username ` set (farmer_table st)"
  shows "login lib form st
     = (render_template ''login.html'' (ctx_login_form form),
        st\<lparr>flashes := flashes st @ [(''error'', ''Invalid username or password'')]\<rparr>)"
proof -
  from assms(2) have "filter_by_username_first (farmer_table st) (lf_username form) = None"
    by (simp add: filter_by_username_first_None)
  with assms(1) show ?thesis by (simp add: login_def flash_def)
qed

lemma login_wrong_password:
  assumes "LoginForm_validate_on_submit lib form"
    and "filter_by_username_first (farmer_table st) (lf_username form) = Some farmer"
    and "\<not> check_password_hash lib (f_password farmer) (lf_password form)"
  shows "login lib form st
     = (render_template ''login.html'' (ctx_login_form form),
        st\<lparr>flashes := flashes st @ [(''error'', ''Invalid username or password'')]\<rparr>)"
  using assms by (simp add: login_def flash_def)

lemma login_success:
  assumes "LoginForm_validate_on_submit lib form"
    and "filter_by_username_first (farmer_table st) (lf_username form) = Some farmer"
    and "check_password_hash lib (f_password farmer) (lf_password form)"
  shows "login lib form st
     = (redirect ''/'',
        st\<lparr>session_user_id := Some (f_id farmer),
           flashes := flashes st @ [(''message'', ''Logged in successfully!'')]\<rparr>)"
  using assms by (simp add: login_def flash_def login_user_def)

text \<open>
  C6. Take two validated login submissions: one whose username is in no row of the
  farmer table, one whose username is found and whose password fails the hash check.
  Each gets \<open>login.html\<close> rendered with its own form and the same flashed error,
  \<open>Invalid username or password\<close>; neither changes the session's account id. The
  outcome tells nothing of the cause: for the same form, sent by clients with the same
  session and flashed messages, the two responses and what the clients hold afterwards
  are equal.
\<close>

theorem login_failures_indistinguishable:
  assumes "LoginForm_validate_on_submit lib form1"
    and "lf_username form1 \<notin> f_username ` set (farmer_table st1)"
    and "LoginForm_validate_on_submit lib form2"
    and "filter_by_username_first (farmer_table st2) (lf_username form2) = Some farmer"
    and "\<not> check_password_hash lib (f_password farmer) (lf_password form2)"
  shows "fst (login lib form1 st1) = render_template ''login.html'' (ctx_login_form form1)
     \<and> fst (login lib form2 st2) = render_template ''login.html'' (ctx_login_form form2)
     \<and> flashes (snd (login lib form1 st1))
         = flashes st1 @ [(''error'', ''Invalid username or password'')]
     \<and> flashes (snd (login lib form2 st2))
         = flashes st2 @ [(''error'', ''Invalid username or password'')]
     \<and> session_user_id (snd (login lib form1 st1)) = session_user_id st1
     \<and> session_user_id (snd (login lib form2 st2)) = session_user_id st2
     \<and> (form1 = form2 \<and> client_view st1 = client_view st2 \<longrightarrow>
           fst (login lib form1 st1) = fst (login lib form2 st2)
           \<and> client_view (snd (login lib form1 st1)) = client_view (snd (login lib form2 st2)))"
proof -
  note a = login_unknown_user [OF assms(1,2)]
  note b = login_wrong_password [OF assms(3,4,5)]
  show ?thesis unfolding a b by (simp add: client_view_def)
qed

lemma demo_check_alice: "\<not> check_password_hash demo_library (f_password alice) ''hunter2''"
  by (simp add: demo_library_def alice_def)

lemma demo_LoginForm_valid:
  "LoginForm_validate_on_submit demo_library alice_wrong_login
   \<and> LoginForm_validate_on_submit demo_library mallory_login"
  by (simp add: LoginForm_validate_on_submit_def is_submitted_def demo_DataRequired
      alice_wrong_login_def mallory_login_def)

theorem login_failures_indistinguishable_witness:
  "LoginForm_validate_on_submit demo_library mallory_login
   \<and> lf_username mallory_login \<notin> f_username ` set (farmer_table (shop None))
   \<and> LoginForm_validate_on_submit demo_library alice_wrong_login
   \<and> filter_by_username_first (farmer_table (shop None)) (lf_username alice_wrong_login)
       = Some alice
   \<and> \<not> check_password_hash demo_library (f_password alice) (lf_password alice_wrong_login)
   \<and> fst (login demo_library mallory_login (shop None))
       = render_template ''login.html'' (ctx_login_form mallory_login)
   \<and> fst (login demo_library alice_wrong_login (shop None))
       = render_template ''login.html'' (ctx_login_form alice_wrong_login)
   \<and> flashes (snd (login demo_library mallory_login (shop None)))
       = flashes (snd (login demo_library alice_wrong_login (shop None)))
   \<and> session_user_id (snd (login demo_library mallory_login (shop None))) = None
   \<and> session_user_id (snd (login demo_library alice_wrong_login (shop None))) = None"
proof -
  have a: "lf_username mallory_login \<notin> f_username ` set (farmer_table (shop None))"
    by (simp add: shop_usernames mallory_login_def)
  have b: "filter_by_username_first (farmer_table (shop None)) (lf_username alice_wrong_login)
      = Some alice"
    by (simp add: filter_by_username_first_def shop_def alice_wrong_login_def alice_def)
  have c: "\<not> check_password_hash demo_library (f_password alice) (lf_password alice_wrong_login)"
    using demo_check_alice by (simp add: alice_wrong_login_def)
  have v1: "LoginForm_validate_on_submit demo_library mallory_login"
    and v2: "LoginForm_validate_on_submit demo_library alice_wrong_login"
    using demo_LoginForm_valid by simp_all
  have s: "session_user_id (shop None) = None" by (simp add: shop_def)
  show ?thesis
    using login_failures_indistinguishable [OF v1 a v2 b c] a b c v1 v2
    by (simp add: s)
qed

subsection \<open>The User model\<close>

text \<open>
  C8. \<open>set_password(p)\<close> followed by \<open>check_password(p)\<close> on the same User object
  returns True, for every password and every salt that the hashing draws. The two
  methods pass the field \<open>password\<close> between werkzeug's \<open>generate_password_hash\<close>
  and \<open>check_password_hash\<close>, which app.py imports; the assumption is werkzeug's
  contract that a hash checks against the password it was made from.
\<close>

theorem set_password_check_password:
  assumes "\<forall>s p. check_password_hash lib (generate_password_hash lib s p) p"
  shows "check_password lib (set_password lib salt self password) password"
  using assms by (simp add: set_password_def check_password_def)

lemma demo_library_round_trip:
  "check_password_hash demo_library (generate_password_hash demo_library s p) p"
  by (simp add: demo_library_def)

theorem set_password_check_password_witness:
  "(\<forall>s p. check_password_hash demo_library (generate_password_hash demo_library s p) p)
   \<and> check_password demo_library (set_password demo_library ''pepper'' demo_user ''hunter2'')
        ''hunter2''"
  using set_password_check_password [of demo_library "''pepper''" demo_user "''hunter2''"]
    demo_library_round_trip
  by blast

subsection \<open>Selling rice\<close>

lemma sell_rice_valid_no_image:
  assumes "current_user st = Some user" and "f_role user = ''farmer''"
    and "SellRiceForm_validate_on_submit lib form" and "sf_image form = None"
    and "float_column lib (sf_price form) = Some price_value"
  shows "sell_rice lib form st
     = (redirect ''/'',
        st\<lparr>rice_product_table := rice_product_table st @
              [\<lparr>p_id = next_id (map p_id (rice_product_table st)),
                p_name = sf_name form,
                p_description = sf_description form,
                p_price = price_value,
                p_quantity = integer_column lib (sf_quantity form),
                p_image = None,
                p_farmer_id = f_id user\<rparr>],
           flashes := flashes st @ [(''message'', ''Rice product added!'')]\<rparr>)"
  using assms
  by (simp add: sell_rice_def handle_image_upload_def add_rice_product_def flash_def)

text \<open>
  A price that the Float column cannot keep passes the form's validators, which only
  require the field, and fails the commit: the request ends in an unhandled exception
  and the state is as it was.
\<close>

lemma sell_rice_storage_error:
  assumes "current_user st = Some user" and "f_role user = ''farmer''"
    and "SellRiceForm_validate_on_submit lib form" and "sf_image form = None"
    and "float_column lib (sf_price form) = None"
  shows "sell_rice lib form st = (unhandled_exception, st)"
  using assms
  by (simp add: sell_rice_def handle_image_upload_def add_rice_product_def)

lemma basmati_form_valid: "SellRiceForm_validate_on_submit demo_library basmati_form"
  by (simp add: SellRiceForm_validate_on_submit_def is_submitted_def demo_DataRequired
      basmati_form_def)

lemma no_number_form_valid: "SellRiceForm_validate_on_submit demo_library no_number_form"
  by (simp add: SellRiceForm_validate_on_submit_def is_submitted_def demo_DataRequired
      no_number_form_def basmati_form_def)

text \<open>
  The farmer \<open>alice\<close> submits the form with the price \<open>abc\<close> and no image. The form
  validates; no row is created and the answer is no redirect.
\<close>

theorem sell_rice_non_numeric_price:
  "current_user (shop (Some 1)) = Some alice \<and> f_role alice = ''farmer''
   \<and> SellRiceForm_validate_on_submit demo_library no_number_form
   \<and> sf_image no_number_form = None
   \<and> fst (sell_rice demo_library no_number_form (shop (Some 1))) = unhandled_exception
   \<and> rice_product_table (snd (sell_rice demo_library no_number_form (shop (Some 1))))
       = rice_product_table (shop (Some 1))"
proof -
  have a: "f_role alice = ''farmer''" by (simp add: alice_def)
  have b: "sf_image no_number_form = None"
    by (simp add: no_number_form_def basmati_form_def)
  have c: "float_column demo_library (sf_price no_number_form) = None"
    by (simp add: demo_library_def no_number_form_def)
  show ?thesis
    using current_user_shop_alice a no_number_form_valid b
    by (simp add: sell_rice_storage_error [OF current_user_shop_alice a no_number_form_valid b c])
qed

text \<open>
  C1, as the code has it. A logged-in account with role \<open>farmer\<close> sends a \<open>/sell_rice\<close>
  form that passes the form's validation, with no image and with a price that the
  Float column can keep (the text of a number that is not a NaN). Then the product
  table gains exactly one row; its image is null, its \<open>farmer_id\<close> is the id of the
  account of the session, and it holds the submitted name and description and what the
  columns keep of the price and the quantity. The answer is the redirect to \<open>/\<close>, and
  the catalog rendered by \<open>/\<close> afterwards lists the old rows and the new one.
\<close>

theorem sell_rice_creates_product:
  assumes "current_user st = Some user" and "f_role user = ''farmer''"
    and "SellRiceForm_validate_on_submit lib form" and "sf_image form = None"
    and "float_column lib (sf_price form) = Some price_value"
  shows "fst (sell_rice lib form st) = redirect ''/''
     \<and> rice_product_table (snd (sell_rice lib form st))
         = rice_product_table st @
           [\<lparr>p_id = next_id (map p_id (rice_product_table st)),
             p_name = sf_name form,
             p_description = sf_description form,
             p_price = price_value,
             p_quantity = integer_column lib (sf_quantity form),
             p_image = None,
             p_farmer_id = f_id user\<rparr>]
     \<and> session_user_id st = Some (f_id user)
     \<and> fst (index (snd (sell_rice lib form st)))
         = render_template ''index.html''
             (ctx_products (rice_product_table st @
               [\<lparr>p_id = next_id (map p_id (rice_product_table st)),
                 p_name = sf_name form,
                 p_description = sf_description form,
                 p_price = price_value,
                 p_quantity = integer_column lib (sf_quantity form),
                 p_image = None,
                 p_farmer_id = f_id user\<rparr>]))"
proof -
  note r = sell_rice_valid_no_image [OF assms]
  have "session_user_id st = Some (f_id user)"
    using assms(1) current_user_session by blast
  then show ?thesis by (simp add: r index_def)
qed

theorem sell_rice_creates_product_witness:
  "current_user (shop (Some 1)) = Some alice \<and> f_role alice = ''farmer''
   \<and> SellRiceForm_validate_on_submit demo_library basmati_form
   \<and> sf_image basmati_form = None
   \<and> float_column demo_library (sf_price basmati_form) = Some ''120.5''
   \<and> fst (sell_rice demo_library basmati_form (shop (Some 1))) = redirect ''/''
   \<and> rice_product_table (snd (sell_rice demo_library basmati_form (shop (Some 1))))
       = [basmati, basmati_row]
   \<and> fst (index (snd (sell_rice demo_library basmati_form (shop (Some 1)))))
       = render_template ''index.html'' (ctx_products [basmati, basmati_row])"
proof -
  have a: "f_role alice = ''farmer''" by (simp add: alice_def)
  have b: "sf_image basmati_form = None" by (simp add: basmati_form_def)
  have c: "float_column demo_library (sf_price basmati_form) = Some ''120.5''"
    by (simp add: demo_library_def basmati_form_def)
  have t: "rice_product_table (shop (Some 1)) = [basmati]" by (simp add: shop_def)
  have n: "\<lparr>p_id = next_id (map p_id (rice_product_table (shop (Some 1)))),
            p_name = sf_name basmati_form,
            p_description = sf_description basmati_form,
            p_price = ''120.5'',
            p_quantity = integer_column demo_library (sf_quantity basmati_form),
            p_image = None,
            p_farmer_id = f_id alice\<rparr> = basmati_row"
    by (simp add: t next_id_def basmati_def basmati_form_def basmati_row_def alice_def
        demo_library_def)
  note r = sell_rice_creates_product [OF current_user_shop_alice a basmati_form_valid b c]
  from r have "fst (sell_rice demo_library basmati_form (shop (Some 1))) = redirect ''/''
     \<and> rice_product_table (snd (sell_rice demo_library basmati_form (shop (Some 1))))
         = rice_product_table (shop (Some 1)) @ [basmati_row]
     \<and> fst (index (snd (sell_rice demo_library basmati_form (shop (Some 1)))))
         = render_template ''index.html''
             (ctx_products (rice_product_table (shop (Some 1)) @ [basmati_row]))"
    by (simp only: n)
  then show ?thesis
    using current_user_shop_alice a basmati_form_valid b c by (simp add: t)
qed

subsection \<open>Registration leaves the session alone\<close>

text \<open>
  C10. A successful registration does not touch the session's account id. When the
  session is valid (it names no account or an existing one, as in every state a run
  reaches), the id is not the new account's and the current user is who it was. A
  following login that validates, with the new username and a password that checks
  against the stored hash, is what makes the new account the session's.
\<close>

theorem register_keeps_session:
  assumes "RegisterForm_validate_on_submit lib form"
    and "rf_username form \<notin> f_username ` set (farmer_table st)"
  shows "session_user_id (snd (register lib salt form st)) = session_user_id st
     \<and> (session_valid st \<longrightarrow>
           session_user_id (snd (register lib salt form st))
             \<noteq> Some (next_id (map f_id (farmer_table st)))
           \<and> current_user (snd (register lib salt form st)) = current_user st)
     \<and> (\<forall>lform. LoginForm_validate_on_submit lib lform
           \<and> lf_username lform = rf_username form
           \<and> check_password_hash lib (generate_password_hash lib salt (rf_password form))
                (lf_password lform)
         \<longrightarrow> session_user_id (snd (login lib lform (snd (register lib salt form st))))
              = Some (next_id (map f_id (farmer_table st))))"
proof (intro conjI allI impI)
  note r = register_new [OF assms, of salt]
  show "session_user_id (snd (register lib salt form st)) = session_user_id st"
    by (simp add: r)
  {
    assume v: "session_valid st"
    show "session_user_id (snd (register lib salt form st))
        \<noteq> Some (next_id (map f_id (farmer_table st)))"
    proof
      assume "session_user_id (snd (register lib salt form st))
          = Some (next_id (map f_id (farmer_table st)))"
      then have "session_user_id st = Some (next_id (map f_id (farmer_table st)))"
        by (simp add: r)
      with v have "next_id (map f_id (farmer_table st)) \<in> set (map f_id (farmer_table st))"
        by (simp add: session_valid_def)
      then show False using next_id_fresh by blast
    qed
    show "current_user (snd (register lib salt form st)) = current_user st"
    proof (cases "session_user_id st")
      case None
      then show ?thesis by (simp add: r current_user_def)
    next
      case (Some i)
      with v have "i \<in> f_id ` set (farmer_table st)" by (simp add: session_valid_def)
      then show ?thesis
        using Some by (simp add: r current_user_def load_user_def query_get_append_old)
    qed
  }
  fix lform
  assume l: "LoginForm_validate_on_submit lib lform
           \<and> lf_username lform = rf_username form
           \<and> check_password_hash lib (generate_password_hash lib salt (rf_password form))
                (lf_password lform)"
  let ?new = "\<lparr>f_id = next_id (map f_id (farmer_table st)),
                f_username = rf_username form,
                f_password = generate_password_hash lib salt (rf_password form),
                f_role = rf_role form,
                f_qr_code = None\<rparr>"
  have "filter_by_username_first (farmer_table st @ [?new]) (lf_username lform) = Some ?new"
    using assms(2) l by (simp add: filter_by_username_first_new)
  then have "filter_by_username_first (farmer_table (snd (register lib salt form st)))
      (lf_username lform) = Some ?new"
    by (simp add: r)
  from login_success [OF _ this] l
  show "session_user_id (snd (login lib lform (snd (register lib salt form st))))
      = Some (next_id (map f_id (farmer_table st)))"
    by simp
qed

lemma carol_login_valid: "LoginForm_validate_on_submit demo_library carol_login"
  by (simp add: LoginForm_validate_on_submit_def is_submitted_def demo_DataRequired
      carol_login_def)

theorem register_keeps_session_witness:
  "RegisterForm_validate_on_submit demo_library carol_form
   \<and> rf_username carol_form \<notin> f_username ` set (farmer_table (shop (Some 2)))
   \<and> session_valid (shop (Some 2))
   \<and> session_user_id (snd (register demo_library ''pepper'' carol_form (shop (Some 2)))) = Some 2
   \<and> current_user (snd (register demo_library ''pepper'' carol_form (shop (Some 2)))) = Some bob
   \<and> LoginForm_validate_on_submit demo_library carol_login
   \<and> lf_username carol_login = rf_username carol_form
   \<and> check_password_hash demo_library
        (generate_password_hash demo_library ''pepper'' (rf_password carol_form))
        (lf_password carol_login)
   \<and> session_user_id (snd (login demo_library carol_login
        (snd (register demo_library ''pepper'' carol_form (shop (Some 2)))))) = Some 3"
proof -
  have c: "rf_username carol_form \<notin> f_username ` set (farmer_table (shop (Some 2)))"
    by (simp add: shop_usernames carol_form_def)
  have v: "session_valid (shop (Some 2))"
    by (simp add: session_valid_def shop_def alice_def bob_def)
  have s: "session_user_id (shop (Some 2)) = Some 2" by (simp add: shop_def)
  have u: "lf_username carol_login = rf_username carol_form"
    by (simp add: carol_login_def carol_form_def)
  have h: "check_password_hash demo_library
        (generate_password_hash demo_library ''pepper'' (rf_password carol_form))
        (lf_password carol_login)"
    by (simp add: demo_library_def carol_login_def carol_form_def)
  note r = register_keeps_session [OF carol_form_valid c, of "''pepper''"]
  have 1: "session_user_id (snd (register demo_library ''pepper'' carol_form (shop (Some 2))))
      = session_user_id (shop (Some 2))"
    using r by blast
  have 2: "current_user (snd (register demo_library ''pepper'' carol_form (shop (Some 2))))
      = current_user (shop (Some 2))"
    using r v by blast
  have 3: "session_user_id (snd (login demo_library carol_login
        (snd (register demo_library ''pepper'' carol_form (shop (Some 2))))))
      = Some (next_id (map f_id (farmer_table (shop (Some 2)))))"
    using r carol_login_valid u h by blast
  show ?thesis
    using 1 2 3 c v u h carol_form_valid carol_login_valid
    by (simp add: s current_user_shop_bob shop_next_farmer_id)
qed

subsection \<open>What a request changes, and the invariants of runs\<close>

text \<open>
  A request leaves each table as it was or appends one row to it: \<open>/register\<close> a
  farmer row with a new key, a new username and no QR code, \<open>/sell_rice\<close> a product
  row with a new key, owned by the current user. Only \<open>/login\<close> changes the
  session's account id, to the id of a row of the farmer table.
\<close>

lemma handle_image_upload_tables:
  "handle_image_upload lib form st = Some (filename, st1) \<Longrightarrow>
     farmer_table st1 = farmer_table st \<and> rice_product_table st1 = rice_product_table st
     \<and> session_user_id st1 = session_user_id st \<and> flashes st1 = flashes st"
  by (auto simp: handle_image_upload_def FileStorage_save_def Let_def
      split: option.splits if_splits)

lemma add_rice_product_tables:
  "add_rice_product lib name description price quantity image_name owner st = Some st2 \<Longrightarrow>
     farmer_table st2 = farmer_table st \<and> session_user_id st2 = session_user_id st
     \<and> (\<exists>row. rice_product_table st2 = rice_product_table st @ [row]
           \<and> p_id row = next_id (map p_id (rice_product_table st))
           \<and> p_farmer_id row = owner)"
  by (auto simp: add_rice_product_def split: option.splits)

lemma sell_rice_farmer_table:
  "farmer_table (snd (sell_rice lib form st)) = farmer_table st"
  by (auto simp: sell_rice_def unauthorized_def flash_def
      split: option.splits if_splits prod.splits
      dest!: handle_image_upload_tables add_rice_product_tables)

lemma sell_rice_session:
  "session_user_id (snd (sell_rice lib form st)) = session_user_id st"
  by (auto simp: sell_rice_def unauthorized_def flash_def
      split: option.splits if_splits prod.splits
      dest!: handle_image_upload_tables add_rice_product_tables)

lemma sell_rice_rice_product_table:
  "rice_product_table (snd (sell_rice lib form st)) = rice_product_table st
   \<or> (\<exists>user row. current_user st = Some user
         \<and> rice_product_table (snd (sell_rice lib form st)) = rice_product_table st @ [row]
         \<and> p_id row = next_id (map p_id (rice_product_table st))
         \<and> p_farmer_id row = f_id user)"
  by (auto simp: sell_rice_def unauthorized_def flash_def
      split: option.splits if_splits prod.splits
      dest!: handle_image_upload_tables add_rice_product_tables)

lemma register_farmer_table:
  "farmer_table (snd (register lib salt form st)) = farmer_table st
   \<or> (\<exists>row. farmer_table (snd (register lib salt form st)) = farmer_table st @ [row]
         \<and> f_id row = next_id (map f_id (farmer_table st))
         \<and> f_username row \<notin> f_username ` set (farmer_table st)
         \<and> f_qr_code row = None)"
proof (cases "RegisterForm_validate_on_submit lib form")
  case False
  then show ?thesis by (simp add: register_invalid)
next
  case True
  show ?thesis
  proof (cases "rf_username form \<in> f_username ` set (farmer_table st)")
    case dup: True
    show ?thesis by (simp add: register_duplicate [OF True dup])
  next
    case new: False
    show ?thesis using new by (simp add: register_new [OF True new])
  qed
qed

lemma register_others:
  "rice_product_table (snd (register lib salt form st)) = rice_product_table st
   \<and> session_user_id (snd (register lib salt form st)) = session_user_id st"
  by (simp add: register_def flash_def Let_def split: option.splits)

lemma login_tables:
  "farmer_table (snd (login lib form st)) = farmer_table st
   \<and> rice_product_table (snd (login lib form st)) = rice_product_table st"
  by (simp add: login_def flash_def login_user_def split: option.splits)

lemma login_session:
  "session_user_id (snd (login lib form st)) = session_user_id st
   \<or> session_user_id (snd (login lib form st)) \<in> Some ` f_id ` set (farmer_table st)"
  by (auto simp: login_def flash_def login_user_def split: option.splits
      dest: filter_by_username_first_Some)

lemma read_only_handlers:
  "snd (index st) = st"
  "farmer_table (snd (profile st)) = farmer_table st"
  "rice_product_table (snd (profile st)) = rice_product_table st"
  "session_user_id (snd (profile st)) = session_user_id st"
  "farmer_table (snd (buy_now i st)) = farmer_table st"
  "rice_product_table (snd (buy_now i st)) = rice_product_table st"
  "session_user_id (snd (buy_now i st)) = session_user_id st"
  by (simp_all add: index_def profile_def buy_now_def unauthorized_def flash_def Let_def
      split: option.splits lookup.splits)

lemma dispatch_farmer_table:
  "farmer_table (snd (dispatch lib req st)) = farmer_table st
   \<or> (\<exists>row. farmer_table (snd (dispatch lib req st)) = farmer_table st @ [row]
         \<and> f_id row = next_id (map f_id (farmer_table st))
         \<and> f_username row \<notin> f_username ` set (farmer_table st)
         \<and> f_qr_code row = None)"
  by (cases req)
    (simp_all add: read_only_handlers product_details_state login_tables
      sell_rice_farmer_table register_farmer_table)

lemma dispatch_rice_product_table:
  "rice_product_table (snd (dispatch lib req st)) = rice_product_table st
   \<or> (\<exists>user row. current_user st = Some user
         \<and> rice_product_table (snd (dispatch lib req st)) = rice_product_table st @ [row]
         \<and> p_id row = next_id (map p_id (rice_product_table st))
         \<and> p_farmer_id row = f_id user)"
proof (cases req)
  case (req_sell_rice form)
  then show ?thesis using sell_rice_rice_product_table [of lib form st] by simp
qed (simp_all add: read_only_handlers product_details_state login_tables register_others)

lemma dispatch_session:
  "session_user_id (snd (dispatch lib req st)) = session_user_id st
   \<or> session_user_id (snd (dispatch lib req st)) \<in> Some ` f_id ` set (farmer_table st)"
  by (cases req)
    (simp_all add: read_only_handlers product_details_state login_session
      sell_rice_session register_others)

text \<open>Every request keeps each invariant, so every state that a run reaches has them.\<close>

lemma dispatch_unique_keys:
  assumes "unique_keys st"
  shows "unique_keys (snd (dispatch lib req st))"
proof -
  have "distinct (map f_id (farmer_table (snd (dispatch lib req st))))"
    using dispatch_farmer_table [of lib req st] assms
      next_id_fresh [of "map f_id (farmer_table st)"]
    by (auto simp: unique_keys_def)
  moreover have "distinct (map p_id (rice_product_table (snd (dispatch lib req st))))"
    using dispatch_rice_product_table [of lib req st] assms
      next_id_fresh [of "map p_id (rice_product_table st)"]
    by (auto simp: unique_keys_def)
  ultimately show ?thesis by (simp add: unique_keys_def)
qed

lemma dispatch_unique_usernames:
  "unique_usernames st \<Longrightarrow> unique_usernames (snd (dispatch lib req st))"
  using dispatch_farmer_table [of lib req st]
  by (auto simp: unique_usernames_def)

lemma dispatch_no_qr_codes:
  "no_qr_codes st \<Longrightarrow> no_qr_codes (snd (dispatch lib req st))"
  using dispatch_farmer_table [of lib req st]
  by (auto simp: no_qr_codes_def)

lemma dispatch_session_valid:
  "session_valid st \<Longrightarrow> session_valid (snd (dispatch lib req st))"
  using dispatch_farmer_table [of lib req st] dispatch_session [of lib req st]
  by (auto simp: session_valid_def split: option.splits)

lemma dispatch_owners_exist:
  assumes "owners_exist st"
  shows "owners_exist (snd (dispatch lib req st))"
proof -
  have grow: "f_id ` set (farmer_table st) \<subseteq> f_id ` set (farmer_table (snd (dispatch lib req st)))"
    using dispatch_farmer_table [of lib req st] by auto
  have old: "\<forall>p \<in> set (rice_product_table st).
      p_farmer_id p \<in> f_id ` set (farmer_table (snd (dispatch lib req st)))"
    using assms grow by (auto simp: owners_exist_def list_all_iff)
  from dispatch_rice_product_table [of lib req st] show ?thesis
  proof
    assume "rice_product_table (snd (dispatch lib req st)) = rice_product_table st"
    with old show ?thesis by (simp add: owners_exist_def list_all_iff)
  next
    assume "\<exists>user row. current_user st = Some user
         \<and> rice_product_table (snd (dispatch lib req st)) = rice_product_table st @ [row]
         \<and> p_id row = next_id (map p_id (rice_product_table st))
         \<and> p_farmer_id row = f_id user"
    then obtain user row where u: "current_user st = Some user"
      and t: "rice_product_table (snd (dispatch lib req st)) = rice_product_table st @ [row]"
      and o: "p_farmer_id row = f_id user"
      by blast
    from u have "f_id user \<in> f_id ` set (farmer_table st)"
      using current_user_session by blast
    with grow o have "p_farmer_id row \<in> f_id ` set (farmer_table (snd (dispatch lib req st)))"
      by auto
    with old t show ?thesis by (simp add: owners_exist_def list_all_iff)
  qed
qed

lemma run_state_invariant:
  "state_invariant st \<Longrightarrow> state_invariant (run lib reqs st)"
proof (induction reqs arbitrary: st)
  case Nil
  then show ?case by simp
next
  case (Cons r rs)
  from Cons.prems have "state_invariant (snd (dispatch lib r st))"
    by (simp add: state_invariant_def dispatch_unique_keys dispatch_unique_usernames
        dispatch_session_valid dispatch_owners_exist dispatch_no_qr_codes)
  then show ?case using Cons.IH by simp
qed

lemma initial_state_invariant: "state_invariant initial_state"
  by (simp add: state_invariant_def unique_keys_def unique_usernames_def session_valid_def
      owners_exist_def no_qr_codes_def initial_state_def)

lemma reachable_state_invariant: "state_invariant (run lib reqs initial_state)"
  by (rule run_state_invariant [OF initial_state_invariant])

subsection \<open>The payment page, by role\<close>

lemma buy_now_not_buyer:
  assumes "current_user st = Some user" and "f_role user \<noteq> ''buyer''"
  shows "buy_now i st
     = (redirect ''/'',
        st\<lparr>flashes := flashes st @ [(''message'', ''Only buyers can make purchases.'')]\<rparr>)"
  using assms by (simp add: buy_now_def flash_def)

lemma buy_now_buyer:
  assumes "current_user st = Some user" and "f_role user = ''buyer''"
    and "distinct (map p_id (rice_product_table st))"
    and "product \<in> set (rice_product_table st)" and "p_id product = i"
    and "distinct (map f_id (farmer_table st))"
    and "farmer \<in> set (farmer_table st)" and "f_id farmer = p_farmer_id product"
  shows "buy_now i st
     = (render_template ''payment_page.html'' (ctx_payment product (f_qr_code farmer)), st)"
proof -
  have "get_or_404 p_id (rice_product_table st) i = found product"
    using assms(3-5) get_or_404_found [of p_id "rice_product_table st" product] by auto
  moreover have "query_get f_id (farmer_table st) (p_farmer_id product) = Some farmer"
    using assms(6-8) query_get_distinct [of f_id "farmer_table st" farmer] by auto
  ultimately show ?thesis
    using assms(1,2) by (simp add: buy_now_def)
qed

lemma dispatch_writes_no_qr_code:
  assumes "row \<in> set (farmer_table (snd (dispatch lib req st)))"
  shows "row \<in> set (farmer_table st) \<or> f_qr_code row = None"
  using dispatch_farmer_table [of lib req st] assms by auto

text \<open>
  In a state that a run reaches, the owner of every product exists and has no QR code:
  a buyer who asks for an existing product gets the payment page with a null QR code.
\<close>

lemma buy_now_in_run:
  assumes "st = run lib reqs initial_state"
    and "current_user st = Some user" and "f_role user = ''buyer''"
    and "product \<in> set (rice_product_table st)" and "p_id product = i"
  shows "buy_now i st
     = (render_template ''payment_page.html'' (ctx_payment product None), st)"
proof -
  have inv: "state_invariant st"
    using assms(1) reachable_state_invariant by simp
  then have "p_farmer_id product \<in> f_id ` set (farmer_table st)"
    using assms(4) by (auto simp: state_invariant_def owners_exist_def list_all_iff)
  then obtain farmer where f: "farmer \<in> set (farmer_table st)"
    and o: "f_id farmer = p_farmer_id product"
    by auto
  from inv f have q: "f_qr_code farmer = None"
    by (auto simp: state_invariant_def no_qr_codes_def list_all_iff)
  from inv have d: "distinct (map p_id (rice_product_table st))"
    and e: "distinct (map f_id (farmer_table st))"
    by (simp_all add: state_invariant_def unique_keys_def)
  from buy_now_buyer [OF assms(2,3) d assms(4,5) e f o] q show ?thesis by simp
qed

text \<open>
  C5. For a logged-in account: with role \<open>farmer\<close>, \<open>/buy_now/<id>\<close> redirects to \<open>/\<close>
  and flashes \<open>Only buyers can make purchases.\<close>; with role \<open>buyer\<close>, when the product
  with the id exists and its owner is in the farmer table, the page
  \<open>payment_page.html\<close> is rendered with that product and the owner's stored
  \<open>qr_code\<close>, and the state is unchanged. No route writes \<open>qr_code\<close>: after any
  request, a row of the farmer table is a row that was there before or has a null
  \<open>qr_code\<close>.
\<close>

theorem buy_now_by_role:
  assumes "current_user st = Some user"
  shows "(f_role user = ''farmer'' \<longrightarrow>
            buy_now i st
              = (redirect ''/'',
                 st\<lparr>flashes := flashes st @ [(''message'', ''Only buyers can make purchases.'')]\<rparr>))
     \<and> (\<forall>product farmer.
           f_role user = ''buyer''
           \<and> distinct (map p_id (rice_product_table st))
           \<and> product \<in> set (rice_product_table st) \<and> p_id product = i
           \<and> distinct (map f_id (farmer_table st))
           \<and> farmer \<in> set (farmer_table st) \<and> f_id farmer = p_farmer_id product
         \<longrightarrow> buy_now i st
              = (render_template ''payment_page.html'' (ctx_payment product (f_qr_code farmer)),
                 st))
     \<and> (\<forall>lib req row.
           row \<in> set (farmer_table (snd (dispatch lib req st)))
         \<longrightarrow> row \<in> set (farmer_table st) \<or> f_qr_code row = None)"
proof (intro conjI allI impI)
  assume "f_role user = ''farmer''"
  then have "f_role user \<noteq> ''buyer''" by simp
  then show "buy_now i st
      = (redirect ''/'',
         st\<lparr>flashes := flashes st @ [(''message'', ''Only buyers can make purchases.'')]\<rparr>)"
    using assms by (rule buy_now_not_buyer [rotated])
next
  fix product farmer
  assume "f_role user = ''buyer''
           \<and> distinct (map p_id (rice_product_table st))
           \<and> product \<in> set (rice_product_table st) \<and> p_id product = i
           \<and> distinct (map f_id (farmer_table st))
           \<and> farmer \<in> set (farmer_table st) \<and> f_id farmer = p_farmer_id product"
  then show "buy_now i st
      = (render_template ''payment_page.html'' (ctx_payment product (f_qr_code farmer)), st)"
    using assms buy_now_buyer by blast
next
  fix lib :: "('a, 'b) library" and req row
  assume "row \<in> set (farmer_table (snd (dispatch lib req st)))"
  then show "row \<in> set (farmer_table st) \<or> f_qr_code row = None"
    by (rule dispatch_writes_no_qr_code)
qed

theorem buy_now_by_role_witness:
  "current_user (shop (Some 1)) = Some alice \<and> f_role alice = ''farmer''
   \<and> fst (buy_now 1 (shop (Some 1))) = redirect ''/''
   \<and> flashes (snd (buy_now 1 (shop (Some 1)))) = [(''message'', ''Only buyers can make purchases.'')]
   \<and> current_user (shop (Some 2)) = Some bob \<and> f_role bob = ''buyer''
   \<and> distinct (map p_id (rice_product_table (shop (Some 2))))
   \<and> basmati \<in> set (rice_product_table (shop (Some 2))) \<and> p_id basmati = 1
   \<and> distinct (map f_id (farmer_table (shop (Some 2))))
   \<and> alice \<in> set (farmer_table (shop (Some 2))) \<and> f_id alice = p_farmer_id basmati
   \<and> buy_now 1 (shop (Some 2))
       = (render_template ''payment_page.html'' (ctx_payment basmati None), shop (Some 2))
   \<and> carol \<in> set (farmer_table (snd (dispatch demo_library
        (req_register ''pepper'' carol_form) (shop (Some 2)))))
   \<and> carol \<notin> set (farmer_table (shop (Some 2)))
   \<and> f_qr_code carol = None"
proof -
  have a: "f_role alice = ''farmer''" by (simp add: alice_def)
  have b: "f_role bob = ''buyer''
     \<and> distinct (map p_id (rice_product_table (shop (Some 2))))
     \<and> basmati \<in> set (rice_product_table (shop (Some 2))) \<and> p_id basmati = 1
     \<and> distinct (map f_id (farmer_table (shop (Some 2))))
     \<and> alice \<in> set (farmer_table (shop (Some 2))) \<and> f_id alice = p_farmer_id basmati"
    by (simp add: shop_def alice_def bob_def basmati_def)
  have q: "f_qr_code alice = None" by (simp add: alice_def)
  have fl: "flashes (shop (Some 1)) = []" by (simp add: shop_def)
  have 1: "buy_now 1 (shop (Some 1))
      = (redirect ''/'',
         (shop (Some 1))\<lparr>flashes := flashes (shop (Some 1))
            @ [(''message'', ''Only buyers can make purchases.'')]\<rparr>)"
    using buy_now_by_role [OF current_user_shop_alice, of 1] a by blast
  have 2: "buy_now 1 (shop (Some 2))
      = (render_template ''payment_page.html'' (ctx_payment basmati (f_qr_code alice)),
         shop (Some 2))"
    using buy_now_by_role [OF current_user_shop_bob, of 1] b by blast
  have new: "rf_username carol_form \<notin> f_username ` set (farmer_table (shop (Some 2)))"
    by (simp add: shop_usernames carol_form_def)
  have row: "\<lparr>f_id = next_id (map f_id (farmer_table (shop (Some 2)))),
            f_username = rf_username carol_form,
            f_password = generate_password_hash demo_library ''pepper'' (rf_password carol_form),
            f_role = rf_role carol_form,
            f_qr_code = None\<rparr> = carol"
    by (simp add: shop_next_farmer_id carol_form_def carol_def demo_library_def)
  have "farmer_table (snd (register demo_library ''pepper'' carol_form (shop (Some 2))))
      = farmer_table (shop (Some 2)) @ [carol]"
    unfolding register_new [OF carol_form_valid new] by (simp only: row) simp
  then have 3: "carol \<in> set (farmer_table (snd (dispatch demo_library
        (req_register ''pepper'' carol_form) (shop (Some 2)))))"
    by simp
  have 4: "carol \<notin> set (farmer_table (shop (Some 2)))"
    by (simp add: shop_def carol_def alice_def bob_def)
  have 5: "f_qr_code carol = None"
    using buy_now_by_role [OF current_user_shop_bob, of 1] 3 4 by blast
  show ?thesis
    using 1 2 3 4 5 a b q fl current_user_shop_alice current_user_shop_bob by simp
qed

end
